theory Spec2Isabelle
  imports Complex_Main "HOL-Library.Word"
begin

section \<open>Data model\<close>

text \<open>
  The benchmark of \<^verbatim>\<open>memBenchmark.h\<close> is a straight-line program over host buffers, device
  buffers, CUDA timing events and the standard output. The model keeps all of them in one
  record, the \<open>world\<close>, and every statement of the source is a function from the world to
  a result and the new world.

  A buffer is identified by its base pointer; its contents are a function from the element
  index to the value of the \<^verbatim>\<open>float\<close> stored there. Element values and measured times are
  real numbers: the model computes with them exactly (no rounding, no overflow of the
  exponent), and keeps the IEEE special values that a division can produce in the type
  \<open>fnum\<close> below.
\<close>

type_synonym ptr = nat
type_synonym event = nat

text \<open>Where an allocation lives: \<^verbatim>\<open>malloc\<close>, \<^verbatim>\<open>cudaMallocHost\<close>, \<^verbatim>\<open>cudaMalloc\<close>.\<close>

datatype space = Pageable | Pinned | Device

datatype cudaMemcpyKind =
  cudaMemcpyHostToDevice | cudaMemcpyDeviceToHost | cudaMemcpyDeviceToDevice

datatype cudaError_t = cudaSuccess | cudaErrorUnknown

text \<open>
  How a run can stop early: the \<^verbatim>\<open>assert\<close> of \<^verbatim>\<open>checkCuda\<close> in a debug build, and the use
  of a pointer, an event handle or a variable that holds no valid value (undefined
  behaviour in C++, which the model turns into a stop).
\<close>

datatype error = AssertionFailed | UndefinedBehaviour

text \<open>The library calls whose outcome the environment decides.\<close>

datatype api =
  ApiMalloc | ApiCudaMallocHost | ApiCudaMalloc | ApiCudaMemcpy
  | ApiEventCreate | ApiEventRecord | ApiEventSynchronize | ApiEventElapsedTime
  | ApiEventDestroy | ApiGetDeviceProperties | ApiCudaFree | ApiCudaFreeHost
  | ApiDeviceReset

text \<open>The calls a run issues, in order.\<close>

datatype call =
  Malloc nat ptr
  | CudaMallocHost nat ptr
  | CudaMalloc nat ptr
  | Memcpy ptr ptr nat
  | Memset ptr nat
  | CudaMemcpy ptr ptr nat cudaMemcpyKind
  | ClockNow
  | EventCreate event
  | EventRecord event
  | EventSynchronize event
  | EventElapsedTime event event
  | EventDestroy event
  | GetDeviceProperties
  | NvtxRangeStart string
  | NvtxRangeEnd nat
  | Free ptr
  | CudaFreeHost ptr
  | CudaFree ptr
  | DeviceReset

text \<open>
  An idealised \<^verbatim>\<open>float\<close>/\<^verbatim>\<open>double\<close>: a real number or one of the IEEE special values.
  The sign of a zero is not kept.
\<close>

datatype fnum = Fin real | PInf | NInf | NaN

fun fneg :: "fnum \<Rightarrow> fnum" where
  "fneg (Fin a) = Fin (- a)"
| "fneg PInf = NInf"
| "fneg NInf = PInf"
| "fneg NaN = NaN"

fun fmul :: "fnum \<Rightarrow> fnum \<Rightarrow> fnum" where
  "fmul (Fin a) (Fin b) = Fin (a * b)"
| "fmul NaN _ = NaN"
| "fmul _ NaN = NaN"
| "fmul (Fin a) y = (if a = 0 then NaN else if 0 < a then y else fneg y)"
| "fmul x (Fin b) = (if b = 0 then NaN else if 0 < b then x else fneg x)"
| "fmul PInf y = y"
| "fmul NInf y = fneg y"

fun fdiv :: "fnum \<Rightarrow> fnum \<Rightarrow> fnum" where
  "fdiv (Fin a) (Fin b) =
     (if b = 0 then (if a = 0 then NaN else if 0 < a then PInf else NInf)
      else Fin (a / b))"
| "fdiv NaN _ = NaN"
| "fdiv _ NaN = NaN"
| "fdiv (Fin a) _ = Fin 0"
| "fdiv x (Fin b) = (if 0 \<le> b then x else fneg x)"
| "fdiv _ _ = NaN"

fun fadd :: "fnum \<Rightarrow> fnum \<Rightarrow> fnum" where
  "fadd (Fin a) (Fin b) = Fin (a + b)"
| "fadd NaN _ = NaN"
| "fadd _ NaN = NaN"
| "fadd (Fin a) y = y"
| "fadd x (Fin b) = x"
| "fadd PInf PInf = PInf"
| "fadd NInf NInf = NInf"
| "fadd _ _ = NaN"

text \<open>The four directions a bandwidth line can report.\<close>

datatype direction = HostToHost | HostToDevice | DeviceToHost | DeviceToDevice

text \<open>
  One value per \<^verbatim>\<open>printf\<close> of the source, with its arguments; the number of a bandwidth
  line is kept as a number, not as its two-decimal rendering.
\<close>

datatype line =
  DeviceName string
  | TransferSizeMB nat
  | HostToHostHeader string
  | TransfersHeader string
  | DeviceToDeviceHeader
  | Bandwidth direction fnum
  | TransfersFailed string
  | DeviceToDeviceFailed
  | Newline

record world =
  mem :: "ptr \<Rightarrow> nat \<Rightarrow> real"
  live :: "(ptr \<times> space \<times> nat) list"
  next_ptr :: ptr
  events :: "event list"
  next_event :: event
  out :: "line list"
  err :: "cudaError_t list"
  trace :: "call list"

text \<open>
  What the program does not decide: the build (\<^verbatim>\<open>DEBUG\<close> defined or not), which library
  calls fail, what the clocks read and the name of device 0. Each is indexed by the number
  of calls issued before it.
\<close>

record env =
  debug :: bool
  fails :: "api \<Rightarrow> nat \<Rightarrow> bool"
  clock :: "nat \<Rightarrow> real"
  elapsed_ms :: "nat \<Rightarrow> real"
  device_name :: string

section \<open>Sequencing with early stop\<close>

type_synonym 'a prog = "world \<Rightarrow> (error + 'a) \<times> world"

definition returnE :: "'a \<Rightarrow> 'a prog" where
  "returnE x s = (Inr x, s)"

definition failE :: "error \<Rightarrow> 'a prog" where
  "failE e s = (Inl e, s)"

definition bindE :: "'a prog \<Rightarrow> ('a \<Rightarrow> 'b prog) \<Rightarrow> 'b prog" where
  "bindE m f s = (case m s of (Inl e, s') \<Rightarrow> (Inl e, s') | (Inr x, s') \<Rightarrow> f x s')"

abbreviation thenE :: "'a prog \<Rightarrow> 'b prog \<Rightarrow> 'b prog" where
  "thenE m k \<equiv> bindE m (\<lambda>_. k)"

text \<open>\<^verbatim>\<open>for (int i = 0; i < k; i++) body\<close> for a body that does not read \<^verbatim>\<open>i\<close>.\<close>

primrec repeatE :: "nat \<Rightarrow> 'a prog \<Rightarrow> unit prog" where
  "repeatE 0 body = returnE ()"
| "repeatE (Suc k) body = thenE body (repeatE k body)"

section \<open>The library calls\<close>

definition null_ptr :: ptr where
  "null_ptr = 0"

definition cuda_result :: "env \<Rightarrow> api \<Rightarrow> world \<Rightarrow> cudaError_t" where
  "cuda_result env a s =
     (if fails env a (length (trace s)) then cudaErrorUnknown else cudaSuccess)"

text \<open>A live host (device) allocation of at least the given number of bytes.\<close>

definition host_ok :: "world \<Rightarrow> ptr \<Rightarrow> nat \<Rightarrow> bool" where
  "host_ok s p bytes =
     (case map_of (live s) p of
        None \<Rightarrow> False
      | Some (sp, sz) \<Rightarrow> sp \<noteq> Device \<and> bytes \<le> sz)"

definition dev_ok :: "world \<Rightarrow> ptr \<Rightarrow> nat \<Rightarrow> bool" where
  "dev_ok s p bytes =
     (case map_of (live s) p of
        None \<Rightarrow> False
      | Some (sp, sz) \<Rightarrow> sp = Device \<and> bytes \<le> sz)"

definition is_space :: "world \<Rightarrow> ptr \<Rightarrow> space \<Rightarrow> bool" where
  "is_space s p sp = (case map_of (live s) p of None \<Rightarrow> False | Some (sp', sz) \<Rightarrow> sp' = sp)"

text \<open>The first \<open>k\<close> elements of \<open>src\<close> over \<open>dst\<close>.\<close>

definition copy_elems :: "nat \<Rightarrow> (nat \<Rightarrow> real) \<Rightarrow> (nat \<Rightarrow> real) \<Rightarrow> nat \<Rightarrow> real" where
  "copy_elems k src dst = (\<lambda>i. if i < k then src i else dst i)"

text \<open>
  \<^verbatim>\<open>malloc\<close>: a fresh pointer, or the null pointer when it fails. The contents of the new
  block are whatever the memory held.
\<close>

definition malloc :: "env \<Rightarrow> nat \<Rightarrow> ptr prog" where
  "malloc env bytes s =
     (if fails env ApiMalloc (length (trace s))
      then (Inr null_ptr, s\<lparr>trace := trace s @ [Malloc bytes null_ptr]\<rparr>)
      else (Inr (next_ptr s),
            s\<lparr>live := live s @ [(next_ptr s, Pageable, bytes)],
              next_ptr := Suc (next_ptr s),
              trace := trace s @ [Malloc bytes (next_ptr s)]\<rparr>))"

text \<open>
  \<^verbatim>\<open>cudaMallocHost\<close> and \<^verbatim>\<open>cudaMalloc\<close> return a status and write the pointer through
  their first argument. When they fail the pointer variable of the caller stays
  uninitialised; the model gives it the null pointer, which no later use accepts.
\<close>

definition cudaMallocHost :: "env \<Rightarrow> nat \<Rightarrow> (cudaError_t \<times> ptr) prog" where
  "cudaMallocHost env bytes s =
     (if fails env ApiCudaMallocHost (length (trace s))
      then (Inr (cudaErrorUnknown, null_ptr),
            s\<lparr>trace := trace s @ [CudaMallocHost bytes null_ptr]\<rparr>)
      else (Inr (cudaSuccess, next_ptr s),
            s\<lparr>live := live s @ [(next_ptr s, Pinned, bytes)],
              next_ptr := Suc (next_ptr s),
              trace := trace s @ [CudaMallocHost bytes (next_ptr s)]\<rparr>))"

definition cudaMalloc :: "env \<Rightarrow> nat \<Rightarrow> (cudaError_t \<times> ptr) prog" where
  "cudaMalloc env bytes s =
     (if fails env ApiCudaMalloc (length (trace s))
      then (Inr (cudaErrorUnknown, null_ptr),
            s\<lparr>trace := trace s @ [CudaMalloc bytes null_ptr]\<rparr>)
      else (Inr (cudaSuccess, next_ptr s),
            s\<lparr>live := live s @ [(next_ptr s, Device, bytes)],
              next_ptr := Suc (next_ptr s),
              trace := trace s @ [CudaMalloc bytes (next_ptr s)]\<rparr>))"

text \<open>
  \<^verbatim>\<open>memcpy(dst, src, bytes)\<close> between two distinct live host blocks. The byte counts of
  this program are multiples of \<^verbatim>\<open>sizeof(float)\<close> = 4.
\<close>

definition memcpy :: "ptr \<Rightarrow> ptr \<Rightarrow> nat \<Rightarrow> unit prog" where
  "memcpy dst src bytes s =
     (if host_ok s dst bytes \<and> host_ok s src bytes \<and> dst \<noteq> src
      then (Inr (),
            s\<lparr>mem := (mem s)(dst := copy_elems (bytes div 4) (mem s src) (mem s dst)),
              trace := trace s @ [Memcpy dst src bytes]\<rparr>)
      else (Inl UndefinedBehaviour, s))"

text \<open>\<^verbatim>\<open>memset(p, 0, bytes)\<close>: all bits zero is the float 0.\<close>

definition memset0 :: "ptr \<Rightarrow> nat \<Rightarrow> unit prog" where
  "memset0 p bytes s =
     (if host_ok s p bytes
      then (Inr (),
            s\<lparr>mem := (mem s)(p := copy_elems (bytes div 4) (\<lambda>_. 0) (mem s p)),
              trace := trace s @ [Memset p bytes]\<rparr>)
      else (Inl UndefinedBehaviour, s))"

text \<open>\<^verbatim>\<open>p[i] = v\<close> on a host block.\<close>

definition store :: "ptr \<Rightarrow> nat \<Rightarrow> real \<Rightarrow> unit prog" where
  "store p i v s =
     (if host_ok s p (4 * Suc i)
      then (Inr (), s\<lparr>mem := (mem s)(p := (mem s p)(i := v))\<rparr>)
      else (Inl UndefinedBehaviour, s))"

text \<open>
  \<^verbatim>\<open>cudaMemcpy(dst, src, bytes, kind)\<close>. A failed copy leaves the destination as it was.
\<close>

definition cudaMemcpy :: "env \<Rightarrow> ptr \<Rightarrow> ptr \<Rightarrow> nat \<Rightarrow> cudaMemcpyKind \<Rightarrow> cudaError_t prog" where
  "cudaMemcpy env dst src bytes kind s =
     (if (case kind of
            cudaMemcpyHostToDevice \<Rightarrow> dev_ok s dst bytes \<and> host_ok s src bytes
          | cudaMemcpyDeviceToHost \<Rightarrow> host_ok s dst bytes \<and> dev_ok s src bytes
          | cudaMemcpyDeviceToDevice \<Rightarrow> dev_ok s dst bytes \<and> dev_ok s src bytes)
      then (Inr (cuda_result env ApiCudaMemcpy s),
            s\<lparr>mem := (if fails env ApiCudaMemcpy (length (trace s)) then mem s
                      else (mem s)(dst := copy_elems (bytes div 4) (mem s src) (mem s dst))),
              trace := trace s @ [CudaMemcpy dst src bytes kind]\<rparr>)
      else (Inl UndefinedBehaviour, s))"

text \<open>
  \<^verbatim>\<open>cudaEventCreate\<close>: a fresh handle; on failure the handle variable stays uninitialised
  (handle 0, which is never live).
\<close>

definition cudaEventCreate :: "env \<Rightarrow> (cudaError_t \<times> event) prog" where
  "cudaEventCreate env s =
     (if fails env ApiEventCreate (length (trace s))
      then (Inr (cudaErrorUnknown, 0), s\<lparr>trace := trace s @ [EventCreate 0]\<rparr>)
      else (Inr (cudaSuccess, next_event s),
            s\<lparr>events := events s @ [next_event s],
              next_event := Suc (next_event s),
              trace := trace s @ [EventCreate (next_event s)]\<rparr>))"

definition cudaEventRecord :: "env \<Rightarrow> event \<Rightarrow> cudaError_t prog" where
  "cudaEventRecord env e s =
     (if e \<in> set (events s)
      then (Inr (cuda_result env ApiEventRecord s), s\<lparr>trace := trace s @ [EventRecord e]\<rparr>)
      else (Inl UndefinedBehaviour, s))"

definition cudaEventSynchronize :: "env \<Rightarrow> event \<Rightarrow> cudaError_t prog" where
  "cudaEventSynchronize env e s =
     (if e \<in> set (events s)
      then (Inr (cuda_result env ApiEventSynchronize s),
            s\<lparr>trace := trace s @ [EventSynchronize e]\<rparr>)
      else (Inl UndefinedBehaviour, s))"

text \<open>
  \<^verbatim>\<open>cudaEventElapsedTime(&time, start, stop)\<close>: the variable \<^verbatim>\<open>time\<close> keeps its old value
  (\<open>None\<close> when it has never been written) if the call fails.
\<close>

definition cudaEventElapsedTime ::
  "env \<Rightarrow> real option \<Rightarrow> event \<Rightarrow> event \<Rightarrow> (cudaError_t \<times> real option) prog" where
  "cudaEventElapsedTime env time start stop s =
     (if start \<in> set (events s) \<and> stop \<in> set (events s)
      then (Inr (cuda_result env ApiEventElapsedTime s,
                 if fails env ApiEventElapsedTime (length (trace s)) then time
                 else Some (elapsed_ms env (length (trace s)))),
            s\<lparr>trace := trace s @ [EventElapsedTime start stop]\<rparr>)
      else (Inl UndefinedBehaviour, s))"

definition cudaEventDestroy :: "env \<Rightarrow> event \<Rightarrow> cudaError_t prog" where
  "cudaEventDestroy env e s =
     (if e \<in> set (events s)
      then (Inr (cuda_result env ApiEventDestroy s),
            s\<lparr>events := (if fails env ApiEventDestroy (length (trace s)) then events s
                         else removeAll e (events s)),
              trace := trace s @ [EventDestroy e]\<rparr>)
      else (Inl UndefinedBehaviour, s))"

text \<open>
  \<^verbatim>\<open>cudaGetDeviceProperties(&prop, 0)\<close>; only \<^verbatim>\<open>prop.name\<close> is read afterwards, and it is
  uninitialised (\<open>None\<close>) when the call fails.
\<close>

definition cudaGetDeviceProperties :: "env \<Rightarrow> (cudaError_t \<times> string option) prog" where
  "cudaGetDeviceProperties env s =
     (Inr (cuda_result env ApiGetDeviceProperties s,
           if fails env ApiGetDeviceProperties (length (trace s)) then None
           else Some (device_name env)),
      s\<lparr>trace := trace s @ [GetDeviceProperties]\<rparr>)"

definition nvtxRangeStart :: "string \<Rightarrow> nat prog" where
  "nvtxRangeStart msg s =
     (Inr (length (trace s)), s\<lparr>trace := trace s @ [NvtxRangeStart msg]\<rparr>)"

definition nvtxRangeEnd :: "nat \<Rightarrow> unit prog" where
  "nvtxRangeEnd r s = (Inr (), s\<lparr>trace := trace s @ [NvtxRangeEnd r]\<rparr>)"

text \<open>\<^verbatim>\<open>free\<close> accepts the null pointer and the pointers \<^verbatim>\<open>malloc\<close> returned.\<close>

definition free :: "ptr \<Rightarrow> unit prog" where
  "free p s =
     (if p = null_ptr then (Inr (), s\<lparr>trace := trace s @ [Free p]\<rparr>)
      else if is_space s p Pageable
      then (Inr (),
            s\<lparr>live := filter (\<lambda>a. fst a \<noteq> p) (live s), trace := trace s @ [Free p]\<rparr>)
      else (Inl UndefinedBehaviour, s))"

definition cudaFreeHost :: "env \<Rightarrow> ptr \<Rightarrow> cudaError_t prog" where
  "cudaFreeHost env p s =
     (if is_space s p Pinned
      then (Inr (cuda_result env ApiCudaFreeHost s),
            s\<lparr>live := (if fails env ApiCudaFreeHost (length (trace s)) then live s
                       else filter (\<lambda>a. fst a \<noteq> p) (live s)),
              trace := trace s @ [CudaFreeHost p]\<rparr>)
      else (Inl UndefinedBehaviour, s))"

definition cudaFree :: "env \<Rightarrow> ptr \<Rightarrow> cudaError_t prog" where
  "cudaFree env p s =
     (if is_space s p Device
      then (Inr (cuda_result env ApiCudaFree s),
            s\<lparr>live := (if fails env ApiCudaFree (length (trace s)) then live s
                       else filter (\<lambda>a. fst a \<noteq> p) (live s)),
              trace := trace s @ [CudaFree p]\<rparr>)
      else (Inl UndefinedBehaviour, s))"

text \<open>
  \<^verbatim>\<open>cudaDeviceReset\<close> destroys what the process still holds on the device: the events and
  the blocks of \<^verbatim>\<open>cudaMalloc\<close> and \<^verbatim>\<open>cudaMallocHost\<close>.
\<close>

definition cudaDeviceReset :: "env \<Rightarrow> cudaError_t prog" where
  "cudaDeviceReset env s =
     (Inr (cuda_result env ApiDeviceReset s),
      s\<lparr>live := (if fails env ApiDeviceReset (length (trace s)) then live s
                 else filter (\<lambda>a. fst (snd a) = Pageable) (live s)),
        events := (if fails env ApiDeviceReset (length (trace s)) then events s else []),
        trace := trace s @ [DeviceReset]\<rparr>)"

definition printf :: "line \<Rightarrow> unit prog" where
  "printf l s = (Inr (), s\<lparr>out := out s @ [l]\<rparr>)"

text \<open>\<^verbatim>\<open>clock_::now()\<close> of the \<^verbatim>\<open>Timer\<close> class, in seconds.\<close>

definition clock_now :: "env \<Rightarrow> real prog" where
  "clock_now env s = (Inr (clock env (length (trace s))), s\<lparr>trace := trace s @ [ClockNow]\<rparr>)"

text \<open>Reading a variable that may never have been written.\<close>

definition read_var :: "'a option \<Rightarrow> 'a prog" where
  "read_var v = (case v of None \<Rightarrow> failE UndefinedBehaviour | Some x \<Rightarrow> returnE x)"

section \<open>The program\<close>

definition MB_TO_TRANSFER :: "32 word" where
  "MB_TO_TRANSFER = 16"

text \<open>
  \<^verbatim>\<open>checkCuda\<close>: in a debug build a failed call is reported on the standard error stream
  and the assertion stops the process; in a release build the status is passed through.
\<close>

definition checkCuda :: "env \<Rightarrow> cudaError_t \<Rightarrow> cudaError_t prog" where
  "checkCuda env result s =
     (if debug env \<and> result \<noteq> cudaSuccess
      then (Inl AssertionFailed, s\<lparr>err := err s @ [result]\<rparr>)
      else (Inr result, s))"

text \<open>The class \<^verbatim>\<open>Timer\<close>; its field \<^verbatim>\<open>beg_\<close> is \<open>beg\<close> here.\<close>

record Timer =
  beg :: real

definition Timer_new :: "env \<Rightarrow> Timer prog" where
  "Timer_new env = bindE (clock_now env) (\<lambda>t. returnE \<lparr>beg = t\<rparr>)"

definition Timer_reset :: "env \<Rightarrow> Timer \<Rightarrow> Timer prog" where
  "Timer_reset env timer = bindE (clock_now env) (\<lambda>t. returnE (timer\<lparr>beg := t\<rparr>))"

definition Timer_elapsed :: "env \<Rightarrow> Timer \<Rightarrow> real prog" where
  "Timer_elapsed env timer = bindE (clock_now env) (\<lambda>t. returnE (t - beg timer))"

text \<open>
  \<^verbatim>\<open>unsigned int bytes = n * sizeof(float)\<close>: the product is cut to 32 bits.
\<close>

definition bytes_of :: "32 word \<Rightarrow> nat" where
  "bytes_of n = unat (n * 4)"

definition profileH2HCopies :: "env \<Rightarrow> ptr \<Rightarrow> ptr \<Rightarrow> 32 word \<Rightarrow> string \<Rightarrow> unit prog" where
  "profileH2HCopies env h_a h_b n desc =
     thenE (printf (HostToHostHeader desc))
    (thenE (repeatE 32 (memcpy h_a h_b (bytes_of n)))
    (let iters = 100 in
     bindE (Timer_new env) (\<lambda>timer.
     thenE (repeatE iters (memcpy h_a h_b (bytes_of n)))
    (bindE (Timer_elapsed env timer) (\<lambda>time1.
     let band1 = fdiv (fmul (fmul (fmul (Fin 2) (Fin (real iters))) (Fin (real (bytes_of n))))
                        (Fin (1 / 10 ^ 9))) (Fin time1) in
     bindE (Timer_reset env timer) (\<lambda>timer.
     thenE (repeatE iters (memcpy h_b h_a (bytes_of n)))
    (bindE (Timer_elapsed env timer) (\<lambda>time2.
     let band2 = fdiv (fmul (fmul (fmul (Fin 2) (Fin (real iters))) (Fin (real (bytes_of n))))
                        (Fin (1 / 10 ^ 9))) (Fin time2) in
     printf (Bandwidth HostToHost (fdiv (fadd band1 band2) (Fin 2)))))))))))"

text \<open>
  The comparison loop that ends \<^verbatim>\<open>profileCopies\<close> and \<^verbatim>\<open>profileD2DCopies\<close>:
  \<^verbatim>\<open>for (unsigned int i = 0; i < n; ++i) if (h_a[i] != h_b[i]) { printf(msg); break; }\<close>
\<close>

function verify_loop :: "line \<Rightarrow> ptr \<Rightarrow> ptr \<Rightarrow> nat \<Rightarrow> nat \<Rightarrow> unit prog" where
  "verify_loop msg h_a h_b i n s =
     (if i < n
      then (if host_ok s h_a (4 * Suc i) \<and> host_ok s h_b (4 * Suc i)
            then (if mem s h_a i \<noteq> mem s h_b i then printf msg s
                  else verify_loop msg h_a h_b (Suc i) n s)
            else (Inl UndefinedBehaviour, s))
      else (Inr (), s))"
  by pat_completeness auto
termination
  by (relation "measure (\<lambda>(msg, h_a, h_b, i, n, s). n - i)") auto

definition profileCopies ::
  "env \<Rightarrow> ptr \<Rightarrow> ptr \<Rightarrow> ptr \<Rightarrow> 32 word \<Rightarrow> string \<Rightarrow> unit prog" where
  "profileCopies env h_a h_b d n desc =
     thenE (printf (TransfersHeader desc))
    (thenE (repeatE 16
       (thenE (bindE (cudaMemcpy env d h_a (bytes_of n) cudaMemcpyHostToDevice) (checkCuda env))
              (bindE (cudaMemcpy env h_b d (bytes_of n) cudaMemcpyDeviceToHost) (checkCuda env))))
    (bindE (cudaEventCreate env) (\<lambda>(r, startEvent). thenE (checkCuda env r)
    (bindE (cudaEventCreate env) (\<lambda>(r, stopEvent). thenE (checkCuda env r)
    (thenE (bindE (cudaEventRecord env startEvent) (checkCuda env))
    (thenE (bindE (cudaMemcpy env d h_a (bytes_of n) cudaMemcpyHostToDevice) (checkCuda env))
    (thenE (bindE (cudaEventRecord env stopEvent) (checkCuda env))
    (thenE (bindE (cudaEventSynchronize env stopEvent) (checkCuda env))
    (bindE (cudaEventElapsedTime env None startEvent stopEvent) (\<lambda>(r, time).
     thenE (checkCuda env r)
    (bindE (read_var time) (\<lambda>t.
     thenE (printf (Bandwidth HostToDevice
              (fdiv (fmul (Fin (real (bytes_of n))) (Fin (1 / 10 ^ 6))) (Fin t))))
    (thenE (bindE (cudaEventRecord env startEvent) (checkCuda env))
    (thenE (bindE (cudaMemcpy env h_b d (bytes_of n) cudaMemcpyDeviceToHost) (checkCuda env))
    (thenE (bindE (cudaEventRecord env stopEvent) (checkCuda env))
    (thenE (bindE (cudaEventSynchronize env stopEvent) (checkCuda env))
    (bindE (cudaEventElapsedTime env time startEvent stopEvent) (\<lambda>(r, time).
     thenE (checkCuda env r)
    (bindE (read_var time) (\<lambda>t.
     thenE (printf (Bandwidth DeviceToHost
              (fdiv (fmul (Fin (real (bytes_of n))) (Fin (1 / 10 ^ 6))) (Fin t))))
    (thenE (verify_loop (TransfersFailed desc) h_a h_b 0 (unat n))
    (thenE (bindE (cudaEventDestroy env startEvent) (checkCuda env))
    (thenE (bindE (cudaEventDestroy env stopEvent) (checkCuda env))
           (returnE ())))))))))))))))))))))))))"

definition profileD2DCopies :: "env \<Rightarrow> ptr \<Rightarrow> ptr \<Rightarrow> 32 word \<Rightarrow> unit prog" where
  "profileD2DCopies env d_a d_b n =
     thenE (printf DeviceToDeviceHeader)
    (thenE (repeatE 16
       (thenE (bindE (cudaMemcpy env d_b d_a (bytes_of n) cudaMemcpyDeviceToDevice) (checkCuda env))
              (bindE (cudaMemcpy env d_a d_b (bytes_of n) cudaMemcpyDeviceToDevice) (checkCuda env))))
    (let iters = 100 in
     bindE (cudaEventCreate env) (\<lambda>(r, startEvent). thenE (checkCuda env r)
    (bindE (cudaEventCreate env) (\<lambda>(r, stopEvent). thenE (checkCuda env r)
    (thenE (bindE (cudaEventRecord env startEvent) (checkCuda env))
    (thenE (repeatE iters
       (bindE (cudaMemcpy env d_b d_a (bytes_of n) cudaMemcpyDeviceToDevice) (checkCuda env)))
    (thenE (bindE (cudaEventRecord env stopEvent) (checkCuda env))
    (thenE (bindE (cudaEventSynchronize env stopEvent) (checkCuda env))
    (bindE (cudaEventElapsedTime env None startEvent stopEvent) (\<lambda>(r, time1).
     thenE (checkCuda env r)
    (bindE (read_var time1) (\<lambda>t1.
     let band1 = fdiv (fmul (fmul (fmul (Fin 2) (Fin (real iters))) (Fin (real (bytes_of n))))
                        (Fin (1 / 10 ^ 6))) (Fin t1) in
     thenE (bindE (cudaEventRecord env startEvent) (checkCuda env))
    (thenE (repeatE iters
       (bindE (cudaMemcpy env d_a d_b (bytes_of n) cudaMemcpyDeviceToDevice) (checkCuda env)))
    (thenE (bindE (cudaEventRecord env stopEvent) (checkCuda env))
    (thenE (bindE (cudaEventSynchronize env stopEvent) (checkCuda env))
    (bindE (cudaEventElapsedTime env None startEvent stopEvent) (\<lambda>(r, time2).
     thenE (checkCuda env r)
    (bindE (read_var time2) (\<lambda>t2.
     let band2 = fdiv (fmul (fmul (fmul (Fin 2) (Fin (real iters))) (Fin (real (bytes_of n))))
                        (Fin (1 / 10 ^ 6))) (Fin t2) in
     thenE (printf (Bandwidth DeviceToDevice (fdiv (fadd band1 band2) (Fin 2))))
    (bindE (cudaMallocHost env (bytes_of n)) (\<lambda>(r, h_a). thenE (checkCuda env r)
    (bindE (cudaMallocHost env (bytes_of n)) (\<lambda>(r, h_b). thenE (checkCuda env r)
    (thenE (bindE (cudaMemcpy env h_a d_a (bytes_of n) cudaMemcpyDeviceToHost) (checkCuda env))
    (thenE (bindE (cudaMemcpy env h_b d_b (bytes_of n) cudaMemcpyDeviceToHost) (checkCuda env))
    (thenE (verify_loop DeviceToDeviceFailed h_a h_b 0 (unat n))
    (thenE (bindE (cudaEventDestroy env startEvent) (checkCuda env))
    (thenE (bindE (cudaEventDestroy env stopEvent) (checkCuda env))
           (returnE ()))))))))))))))))))))))))))))))"

text \<open>
  \<^verbatim>\<open>for (unsigned int i = 0; i < nElements; ++i) h_aPageable[i] = (float)i;\<close>
  The conversion is exact for \<open>i < 2 ^ 24\<close>, which covers the fixed transfer size.
\<close>

function init_loop :: "ptr \<Rightarrow> nat \<Rightarrow> nat \<Rightarrow> unit prog" where
  "init_loop p i n s =
     (if i < n
      then (case store p i (real i) s of
              (Inl e, s') \<Rightarrow> (Inl e, s')
            | (Inr _, s') \<Rightarrow> init_loop p (Suc i) n s')
      else (Inr (), s))"
  by pat_completeness auto
termination
  by (relation "measure (\<lambda>(p, i, n, s). n - i)") auto

definition nElements :: "32 word" where
  "nElements = MB_TO_TRANSFER * 256 * 1024"

definition memBenchmark :: "env \<Rightarrow> int prog" where
  "memBenchmark env =
    (let bytes = bytes_of nElements in
     bindE (malloc env bytes) (\<lambda>h_aPageable.
     bindE (malloc env bytes) (\<lambda>h_bPageable.
     bindE (cudaMallocHost env bytes) (\<lambda>(r, h_aPinned). thenE (checkCuda env r)
    (bindE (cudaMallocHost env bytes) (\<lambda>(r, h_bPinned). thenE (checkCuda env r)
    (bindE (cudaMalloc env bytes) (\<lambda>(r, d_a). thenE (checkCuda env r)
    (bindE (cudaMalloc env bytes) (\<lambda>(r, d_b). thenE (checkCuda env r)
    (thenE (init_loop h_aPageable 0 (unat nElements))
    (thenE (memcpy h_aPinned h_aPageable bytes)
    (thenE (memset0 h_bPageable bytes)
    (thenE (memset0 h_bPinned bytes)
    (bindE (cudaGetDeviceProperties env) (\<lambda>(r, prop). thenE (checkCuda env r)
    (bindE (read_var prop) (\<lambda>name.
     thenE (printf (DeviceName name))
    (thenE (printf (TransferSizeMB (bytes div (1024 * 1024))))
    (bindE (nvtxRangeStart ''Host to Host Paged Memory Transfer'') (\<lambda>h2hPageable_range.
     thenE (profileH2HCopies env h_aPageable h_bPageable nElements ''Pageable'')
    (thenE (nvtxRangeEnd h2hPageable_range)
    (bindE (nvtxRangeStart ''Host to Host Pinned Memory Transfer'') (\<lambda>h2hPinned_range.
     thenE (profileH2HCopies env h_aPinned h_bPinned nElements ''Pinned'')
    (thenE (nvtxRangeEnd h2hPinned_range)
    (bindE (nvtxRangeStart ''Paged Memory Transfer'') (\<lambda>pageable_range.
     thenE (profileCopies env h_aPageable h_bPageable d_a nElements ''Pageable'')
    (thenE (nvtxRangeEnd pageable_range)
    (bindE (nvtxRangeStart ''Pinned Memory Transfer'') (\<lambda>pinned_range.
     thenE (profileCopies env h_aPinned h_bPinned d_a nElements ''Pinned'')
    (thenE (nvtxRangeEnd pinned_range)
    (bindE (nvtxRangeStart ''Device to Device Memory Transfer'') (\<lambda>d2d_range.
     thenE (profileD2DCopies env d_a d_b nElements)
    (thenE (nvtxRangeEnd d2d_range)
    (thenE (printf Newline)
    (thenE (cudaFree env d_a)
    (thenE (cudaFreeHost env h_aPinned)
    (thenE (cudaFreeHost env h_bPinned)
    (thenE (free h_aPageable)
    (thenE (free h_bPageable)
    (thenE (cudaDeviceReset env)
           (returnE 0))))))))))))))))))))))))))))))))))))))))))"

text \<open>The world of a process that has not called anything yet.\<close>

definition init_world :: "(ptr \<Rightarrow> nat \<Rightarrow> real) \<Rightarrow> world" where
  "init_world m =
     \<lparr>mem = m, live = [], next_ptr = 1, events = [], next_event = 1,
      out = [], err = [], trace = []\<rparr>"

section \<open>Vocabulary of the statements\<close>

definition wp :: "'a prog \<Rightarrow> ('a \<Rightarrow> world \<Rightarrow> bool) \<Rightarrow> (error \<Rightarrow> world \<Rightarrow> bool) \<Rightarrow> world \<Rightarrow> bool" where
  "wp m Q E s = (case m s of (Inl e, s') \<Rightarrow> E e s' | (Inr x, s') \<Rightarrow> Q x s')"

definition pick :: "bool \<Rightarrow> 'a \<Rightarrow> 'a \<Rightarrow> 'a" where
  "pick c a b = (if c then a else b)"

definition aborts :: "env \<Rightarrow> cudaError_t \<Rightarrow> bool" where
  "aborts env r \<longleftrightarrow> debug env \<and> r \<noteq> cudaSuccess"

definition stops :: "env \<Rightarrow> api \<Rightarrow> nat \<Rightarrow> bool" where
  "stops env a k \<longleftrightarrow> debug env \<and> fails env a k"

definition two_way_band :: "real \<Rightarrow> nat \<Rightarrow> real \<Rightarrow> fnum" where
  "two_way_band scale bytes t =
     fdiv (fmul (fmul (fmul (Fin 2) (Fin 100)) (Fin (real bytes))) (Fin scale)) (Fin t)"

definition h2h_trace :: "ptr \<Rightarrow> ptr \<Rightarrow> nat \<Rightarrow> call list" where
  "h2h_trace h_a h_b b =
     replicate 32 (Memcpy h_a h_b b) @ [ClockNow] @ replicate 100 (Memcpy h_a h_b b)
     @ [ClockNow, ClockNow] @ replicate 100 (Memcpy h_b h_a b) @ [ClockNow]"



definition nofail :: "env \<Rightarrow> bool" where
  "nofail env = (\<forall>a k. \<not> fails env a k)"

definition d2d_trace :: "ptr \<Rightarrow> ptr \<Rightarrow> nat \<Rightarrow> event \<Rightarrow> ptr \<Rightarrow> call list" where
  "d2d_trace d_a d_b b e p =
     concat (replicate 16 [CudaMemcpy d_b d_a b cudaMemcpyDeviceToDevice,
                           CudaMemcpy d_a d_b b cudaMemcpyDeviceToDevice])
     @ [EventCreate e, EventCreate (Suc e), EventRecord e]
     @ concat (replicate 100 [CudaMemcpy d_b d_a b cudaMemcpyDeviceToDevice])
     @ [EventRecord (Suc e), EventSynchronize (Suc e), EventElapsedTime e (Suc e),
        EventRecord e]
     @ concat (replicate 100 [CudaMemcpy d_a d_b b cudaMemcpyDeviceToDevice])
     @ [EventRecord (Suc e), EventSynchronize (Suc e), EventElapsedTime e (Suc e),
        CudaMallocHost b p, CudaMallocHost b (Suc p),
        CudaMemcpy p d_a b cudaMemcpyDeviceToHost,
        CudaMemcpy (Suc p) d_b b cudaMemcpyDeviceToHost,
        EventDestroy e, EventDestroy (Suc e)]"

definition quiet_env :: env where
  "quiet_env =
     \<lparr>debug = False, fails = (\<lambda>_ _. False), clock = (\<lambda>k. real k),
      elapsed_ms = (\<lambda>_. 1), device_name = ''GPU''\<rparr>"

definition two_buffers :: "nat \<Rightarrow> world" where
  "two_buffers sz =
     \<lparr>mem = (\<lambda>p i. if p = 1 then real i else 0),
      live = [(1, Pageable, sz), (2, Pageable, sz)], next_ptr = 3,
      events = [], next_event = 1, out = [], err = [], trace = []\<rparr>"

definition copy_ok :: "world \<Rightarrow> ptr \<Rightarrow> ptr \<Rightarrow> nat \<Rightarrow> cudaMemcpyKind \<Rightarrow> bool" where
  "copy_ok s dst src bytes kind =
     (case kind of
        cudaMemcpyHostToDevice \<Rightarrow> dev_ok s dst bytes \<and> host_ok s src bytes
      | cudaMemcpyDeviceToHost \<Rightarrow> host_ok s dst bytes \<and> dev_ok s src bytes
      | cudaMemcpyDeviceToDevice \<Rightarrow> dev_ok s dst bytes \<and> dev_ok s src bytes)"


definition host_in :: "(ptr \<times> space \<times> nat) list \<Rightarrow> ptr \<Rightarrow> nat \<Rightarrow> bool" where
  "host_in l p bytes =
     (case map_of l p of None \<Rightarrow> False | Some (sp, sz) \<Rightarrow> sp \<noteq> Device \<and> bytes \<le> sz)"

definition dev_in :: "(ptr \<times> space \<times> nat) list \<Rightarrow> ptr \<Rightarrow> nat \<Rightarrow> bool" where
  "dev_in l p bytes =
     (case map_of l p of None \<Rightarrow> False | Some (sp, sz) \<Rightarrow> sp = Device \<and> bytes \<le> sz)"

definition space_in :: "(ptr \<times> space \<times> nat) list \<Rightarrow> ptr \<Rightarrow> space \<Rightarrow> bool" where
  "space_in l p sp = (case map_of l p of None \<Rightarrow> False | Some (sp', sz) \<Rightarrow> sp' = sp)"

definition wf_world :: "world \<Rightarrow> bool" where
  "wf_world s \<longleftrightarrow>
     0 \<notin> set (events s) \<and> 0 < next_event s \<and> map_of (live s) 0 = None \<and> 0 < next_ptr s"

definition test_world :: world where
  "test_world =
     \<lparr>mem = (\<lambda>p i. if p = 1 then real i else 0),
      live = [(1, Pageable, 16), (2, Pageable, 16), (3, Device, 16), (4, Device, 16)],
      next_ptr = 5, events = [], next_event = 1, out = [], err = [], trace = []\<rparr>"



definition skew_env :: env where
  "skew_env = quiet_env\<lparr>elapsed_ms := (\<lambda>k. if k = 137 then 1 else 3)\<rparr>"

definition zero_env :: env where
  "zero_env = quiet_env\<lparr>elapsed_ms := (\<lambda>_. 0)\<rparr>"

definition unit_env :: env where
  "unit_env = quiet_env\<lparr>elapsed_ms := (\<lambda>_. 101000)\<rparr>"

text \<open>The figures of the bandwidth lines of an output, in the order printed.\<close>

fun bandwidths :: "line list \<Rightarrow> fnum list" where
  "bandwidths [] = []"
| "bandwidths (Bandwidth d x # ls) = x # bandwidths ls"
| "bandwidths (l # ls) = bandwidths ls"


section \<open>Lemmas about the model\<close>

lemma wp_returnE: "wp (returnE x) Q E s = Q x s"
  by (simp add: wp_def returnE_def)

lemma wp_failE: "wp (failE e) Q E s = E e s"
  by (simp add: wp_def failE_def)

lemma wp_bindE: "wp (bindE m f) Q E s = wp m (\<lambda>x. wp (f x) Q E) E s"
  by (simp add: wp_def bindE_def split: prod.splits sum.splits)

lemma wp_mono:
  assumes "wp m Q' E' s"
    and "\<And>x s'. Q' x s' \<Longrightarrow> Q x s'"
    and "\<And>e s'. E' e s' \<Longrightarrow> E e s'"
  shows "wp m Q E s"
  using assms by (auto simp: wp_def split: prod.splits sum.splits)

lemma wp_repeatE:
  assumes "I 0 s"
    and "\<And>j t. j < k \<Longrightarrow> I j t \<Longrightarrow> wp body (\<lambda>_. I (Suc j)) E t"
    and "\<And>t. I k t \<Longrightarrow> Q () t"
  shows "wp (repeatE k body) Q E s"
  using assms
proof (induction k arbitrary: s I Q)
  case 0
  then show ?case by (simp add: wp_returnE)
next
  case (Suc k)
  have step: "wp body (\<lambda>_. I (Suc 0)) E s"
    using Suc.prems(1,2) by simp
  have rest: "wp (repeatE k body) Q E t" if "I (Suc 0) t" for t
  proof (rule Suc.IH [where I = "\<lambda>j. I (Suc j)"])
    show "I (Suc 0) t" by (rule that)
    show "wp body (\<lambda>_. I (Suc (Suc j))) E u" if "j < k" "I (Suc j) u" for j u
      using Suc.prems(2) [of "Suc j" u] that by simp
    show "Q () u" if "I (Suc k) u" for u
      using Suc.prems(3) that by simp
  qed
  show ?case
    by (simp add: wp_bindE) (rule wp_mono [OF step], use rest in auto)
qed

lemma pick_simps [simp]: "pick True a b = a" "pick False a b = b" "pick c a a = a"
  by (simp_all add: pick_def)

lemma pick_set [simp]:
  "set (pick c xs ys) = pick c (set xs) (set ys)"
  "x \<in> pick c A B \<longleftrightarrow> pick c (x \<in> A) (x \<in> B)"
  by (simp_all add: pick_def)

lemma cuda_result_ne [simp]:
  "cuda_result env a s \<noteq> cudaSuccess \<longleftrightarrow> fails env a (length (trace s))"
  "cuda_result env a s = cudaSuccess \<longleftrightarrow> \<not> fails env a (length (trace s))"
  by (simp_all add: cuda_result_def)

lemma pick_Some [simp]: "pick c (Some a) (Some b) = Some (pick c a b)"
  by (simp add: pick_def)

lemma case_pick_None [simp]:
  "(case pick c None (Some b) of None \<Rightarrow> X | Some x \<Rightarrow> Y x) \<longleftrightarrow> (c \<longrightarrow> X) \<and> (\<not> c \<longrightarrow> Y b)"
  by (simp add: pick_def)

lemma wp_exact: "wp m (\<lambda>x t. x = r \<and> t = s') (\<lambda>_ _. False) s \<longleftrightarrow> m s = (Inr r, s')"
  by (auto simp: wp_def split: prod.splits sum.splits)

lemma wp_printf: "wp (printf l) Q E s = Q () (s\<lparr>out := out s @ [l]\<rparr>)"
  by (simp add: wp_def printf_def)

lemma aborts_simps [simp]:
  "aborts env cudaSuccess = False"
  "\<not> debug env \<Longrightarrow> aborts env r = False"
  by (simp_all add: aborts_def)

lemma stops_simps [simp]:
  "aborts env (cuda_result env a s) = stops env a (length (trace s))"
  "\<not> debug env \<Longrightarrow> stops env a k = False"
  "\<not> fails env a k \<Longrightarrow> stops env a k = False"
  by (simp_all add: stops_def aborts_def)

lemma wp_checkCuda:
  "wp (checkCuda env r) Q E s \<longleftrightarrow>
     (aborts env r \<longrightarrow> E AssertionFailed (s\<lparr>err := err s @ [r]\<rparr>))
     \<and> (\<not> aborts env r \<longrightarrow> Q r s)"
  by (auto simp add: wp_def checkCuda_def aborts_def)

lemma host_dev_excl:
  "dev_ok s p b \<Longrightarrow> host_ok s p b' = False"
  "host_ok s p b \<Longrightarrow> dev_ok s p b' = False"
  by (auto simp: dev_ok_def host_ok_def split: option.splits)

lemma wp_read_var:
  "wp (read_var v) Q E s = (case v of None \<Rightarrow> E UndefinedBehaviour s | Some x \<Rightarrow> Q x s)"
  by (simp add: wp_def read_var_def failE_def returnE_def split: option.splits)

lemma wp_clock_now:
  "wp (clock_now env) Q E s =
     Q (clock env (length (trace s))) (s\<lparr>trace := trace s @ [ClockNow]\<rparr>)"
  by (simp add: wp_def clock_now_def)

lemma wp_malloc:
  "wp (malloc env bytes) Q E s \<longleftrightarrow>
     (fails env ApiMalloc (length (trace s))
        \<longrightarrow> Q null_ptr (s\<lparr>trace := trace s @ [Malloc bytes null_ptr]\<rparr>))
     \<and> (\<not> fails env ApiMalloc (length (trace s))
        \<longrightarrow> Q (next_ptr s)
              (s\<lparr>live := live s @ [(next_ptr s, Pageable, bytes)],
                next_ptr := Suc (next_ptr s),
                trace := trace s @ [Malloc bytes (next_ptr s)]\<rparr>))"
  by (auto simp add: wp_def malloc_def)

lemma wp_cudaMallocHost:
  "wp (cudaMallocHost env bytes) Q E s \<longleftrightarrow>
     (fails env ApiCudaMallocHost (length (trace s))
        \<longrightarrow> Q (cudaErrorUnknown, null_ptr)
              (s\<lparr>trace := trace s @ [CudaMallocHost bytes null_ptr]\<rparr>))
     \<and> (\<not> fails env ApiCudaMallocHost (length (trace s))
        \<longrightarrow> Q (cudaSuccess, next_ptr s)
              (s\<lparr>live := live s @ [(next_ptr s, Pinned, bytes)],
                next_ptr := Suc (next_ptr s),
                trace := trace s @ [CudaMallocHost bytes (next_ptr s)]\<rparr>))"
  by (auto simp add: wp_def cudaMallocHost_def)

lemma wp_cudaMalloc:
  "wp (cudaMalloc env bytes) Q E s \<longleftrightarrow>
     (fails env ApiCudaMalloc (length (trace s))
        \<longrightarrow> Q (cudaErrorUnknown, null_ptr)
              (s\<lparr>trace := trace s @ [CudaMalloc bytes null_ptr]\<rparr>))
     \<and> (\<not> fails env ApiCudaMalloc (length (trace s))
        \<longrightarrow> Q (cudaSuccess, next_ptr s)
              (s\<lparr>live := live s @ [(next_ptr s, Device, bytes)],
                next_ptr := Suc (next_ptr s),
                trace := trace s @ [CudaMalloc bytes (next_ptr s)]\<rparr>))"
  by (auto simp add: wp_def cudaMalloc_def)

lemma wp_memcpy:
  "wp (memcpy dst src bytes) Q E s \<longleftrightarrow>
     (host_ok s dst bytes \<and> host_ok s src bytes \<and> dst \<noteq> src
        \<longrightarrow> Q () (s\<lparr>mem := (mem s)(dst := copy_elems (bytes div 4) (mem s src) (mem s dst)),
                    trace := trace s @ [Memcpy dst src bytes]\<rparr>))
     \<and> (\<not> (host_ok s dst bytes \<and> host_ok s src bytes \<and> dst \<noteq> src)
        \<longrightarrow> E UndefinedBehaviour s)"
  by (auto simp add: wp_def memcpy_def)

lemma wp_memset0:
  "wp (memset0 p bytes) Q E s \<longleftrightarrow>
     (host_ok s p bytes
        \<longrightarrow> Q () (s\<lparr>mem := (mem s)(p := copy_elems (bytes div 4) (\<lambda>_. 0) (mem s p)),
                    trace := trace s @ [Memset p bytes]\<rparr>))
     \<and> (\<not> host_ok s p bytes \<longrightarrow> E UndefinedBehaviour s)"
  by (auto simp add: wp_def memset0_def)

lemma copy_ok_simps [simp]:
  "copy_ok s dst src b cudaMemcpyHostToDevice \<longleftrightarrow> dev_ok s dst b \<and> host_ok s src b"
  "copy_ok s dst src b cudaMemcpyDeviceToHost \<longleftrightarrow> host_ok s dst b \<and> dev_ok s src b"
  "copy_ok s dst src b cudaMemcpyDeviceToDevice \<longleftrightarrow> dev_ok s dst b \<and> dev_ok s src b"
  by (simp_all add: copy_ok_def)

lemma wp_cudaMemcpy:
  "wp (cudaMemcpy env dst src bytes kind) Q E s \<longleftrightarrow>
     (copy_ok s dst src bytes kind
        \<longrightarrow> Q (cuda_result env ApiCudaMemcpy s)
              (s\<lparr>mem := pick (fails env ApiCudaMemcpy (length (trace s))) (mem s)
                        ((mem s)(dst := copy_elems (bytes div 4) (mem s src) (mem s dst))),
                trace := trace s @ [CudaMemcpy dst src bytes kind]\<rparr>))
     \<and> (\<not> copy_ok s dst src bytes kind \<longrightarrow> E UndefinedBehaviour s)"
  by (auto simp add: wp_def cudaMemcpy_def pick_def copy_ok_def)

lemma wp_cudaEventCreate:
  "wp (cudaEventCreate env) Q E s \<longleftrightarrow>
     (fails env ApiEventCreate (length (trace s))
        \<longrightarrow> Q (cudaErrorUnknown, 0) (s\<lparr>trace := trace s @ [EventCreate 0]\<rparr>))
     \<and> (\<not> fails env ApiEventCreate (length (trace s))
        \<longrightarrow> Q (cudaSuccess, next_event s)
              (s\<lparr>events := events s @ [next_event s],
                next_event := Suc (next_event s),
                trace := trace s @ [EventCreate (next_event s)]\<rparr>))"
  by (auto simp add: wp_def cudaEventCreate_def)

lemma wp_cudaEventRecord:
  "wp (cudaEventRecord env e) Q E s \<longleftrightarrow>
     (e \<in> set (events s)
        \<longrightarrow> Q (cuda_result env ApiEventRecord s) (s\<lparr>trace := trace s @ [EventRecord e]\<rparr>))
     \<and> (e \<notin> set (events s) \<longrightarrow> E UndefinedBehaviour s)"
  by (auto simp add: wp_def cudaEventRecord_def)

lemma wp_cudaEventSynchronize:
  "wp (cudaEventSynchronize env e) Q E s \<longleftrightarrow>
     (e \<in> set (events s)
        \<longrightarrow> Q (cuda_result env ApiEventSynchronize s)
              (s\<lparr>trace := trace s @ [EventSynchronize e]\<rparr>))
     \<and> (e \<notin> set (events s) \<longrightarrow> E UndefinedBehaviour s)"
  by (auto simp add: wp_def cudaEventSynchronize_def)

lemma wp_cudaEventElapsedTime:
  "wp (cudaEventElapsedTime env time start stop) Q E s \<longleftrightarrow>
     (start \<in> set (events s) \<and> stop \<in> set (events s)
        \<longrightarrow> Q (cuda_result env ApiEventElapsedTime s,
                pick (fails env ApiEventElapsedTime (length (trace s))) time
                  (Some (elapsed_ms env (length (trace s)))))
              (s\<lparr>trace := trace s @ [EventElapsedTime start stop]\<rparr>))
     \<and> (\<not> (start \<in> set (events s) \<and> stop \<in> set (events s)) \<longrightarrow> E UndefinedBehaviour s)"
  by (auto simp add: wp_def cudaEventElapsedTime_def pick_def)

lemma wp_cudaEventDestroy:
  "wp (cudaEventDestroy env e) Q E s \<longleftrightarrow>
     (e \<in> set (events s)
        \<longrightarrow> Q (cuda_result env ApiEventDestroy s)
              (s\<lparr>events := pick (fails env ApiEventDestroy (length (trace s))) (events s)
                           (removeAll e (events s)),
                trace := trace s @ [EventDestroy e]\<rparr>))
     \<and> (e \<notin> set (events s) \<longrightarrow> E UndefinedBehaviour s)"
  by (auto simp add: wp_def cudaEventDestroy_def pick_def)

lemma wp_cudaGetDeviceProperties:
  "wp (cudaGetDeviceProperties env) Q E s =
     Q (cuda_result env ApiGetDeviceProperties s,
        pick (fails env ApiGetDeviceProperties (length (trace s))) None
          (Some (device_name env)))
       (s\<lparr>trace := trace s @ [GetDeviceProperties]\<rparr>)"
  by (simp add: wp_def cudaGetDeviceProperties_def pick_def)

lemma wp_nvtxRangeStart:
  "wp (nvtxRangeStart msg) Q E s =
     Q (length (trace s)) (s\<lparr>trace := trace s @ [NvtxRangeStart msg]\<rparr>)"
  by (simp add: wp_def nvtxRangeStart_def)

lemma wp_nvtxRangeEnd:
  "wp (nvtxRangeEnd r) Q E s = Q () (s\<lparr>trace := trace s @ [NvtxRangeEnd r]\<rparr>)"
  by (simp add: wp_def nvtxRangeEnd_def)

lemma wp_free:
  "wp (free p) Q E s \<longleftrightarrow>
     (p = null_ptr \<longrightarrow> Q () (s\<lparr>trace := trace s @ [Free p]\<rparr>))
     \<and> (p \<noteq> null_ptr \<and> is_space s p Pageable
        \<longrightarrow> Q () (s\<lparr>live := filter (\<lambda>a. fst a \<noteq> p) (live s), trace := trace s @ [Free p]\<rparr>))
     \<and> (p \<noteq> null_ptr \<and> \<not> is_space s p Pageable \<longrightarrow> E UndefinedBehaviour s)"
  by (auto simp add: wp_def free_def)

lemma wp_cudaFreeHost:
  "wp (cudaFreeHost env p) Q E s \<longleftrightarrow>
     (is_space s p Pinned
        \<longrightarrow> Q (cuda_result env ApiCudaFreeHost s)
              (s\<lparr>live := pick (fails env ApiCudaFreeHost (length (trace s))) (live s)
                         (filter (\<lambda>a. fst a \<noteq> p) (live s)),
                trace := trace s @ [CudaFreeHost p]\<rparr>))
     \<and> (\<not> is_space s p Pinned \<longrightarrow> E UndefinedBehaviour s)"
  by (auto simp add: wp_def cudaFreeHost_def pick_def)

lemma wp_cudaFree:
  "wp (cudaFree env p) Q E s \<longleftrightarrow>
     (is_space s p Device
        \<longrightarrow> Q (cuda_result env ApiCudaFree s)
              (s\<lparr>live := pick (fails env ApiCudaFree (length (trace s))) (live s)
                         (filter (\<lambda>a. fst a \<noteq> p) (live s)),
                trace := trace s @ [CudaFree p]\<rparr>))
     \<and> (\<not> is_space s p Device \<longrightarrow> E UndefinedBehaviour s)"
  by (auto simp add: wp_def cudaFree_def pick_def)

lemma wp_cudaDeviceReset:
  "wp (cudaDeviceReset env) Q E s =
     Q (cuda_result env ApiDeviceReset s)
       (s\<lparr>live := pick (fails env ApiDeviceReset (length (trace s))) (live s)
                  (filter (\<lambda>a. fst (snd a) = Pageable) (live s)),
         events := pick (fails env ApiDeviceReset (length (trace s))) (events s) [],
         trace := trace s @ [DeviceReset]\<rparr>)"
  by (simp add: wp_def cudaDeviceReset_def pick_def)

lemma wp_Timer_new:
  "wp (Timer_new env) Q E s =
     Q \<lparr>beg = clock env (length (trace s))\<rparr> (s\<lparr>trace := trace s @ [ClockNow]\<rparr>)"
  by (simp add: Timer_new_def wp_bindE wp_clock_now wp_returnE)

lemma wp_Timer_reset:
  "wp (Timer_reset env timer) Q E s =
     Q (timer\<lparr>beg := clock env (length (trace s))\<rparr>) (s\<lparr>trace := trace s @ [ClockNow]\<rparr>)"
  by (simp add: Timer_reset_def wp_bindE wp_clock_now wp_returnE)

lemma wp_Timer_elapsed:
  "wp (Timer_elapsed env timer) Q E s =
     Q (clock env (length (trace s)) - beg timer) (s\<lparr>trace := trace s @ [ClockNow]\<rparr>)"
  by (simp add: Timer_elapsed_def wp_bindE wp_clock_now wp_returnE)

lemmas wp_prims =
  wp_returnE wp_failE wp_bindE wp_printf wp_checkCuda wp_read_var wp_clock_now wp_malloc
  wp_cudaMallocHost wp_cudaMalloc wp_memcpy wp_memset0 wp_cudaMemcpy wp_cudaEventCreate
  wp_cudaEventRecord wp_cudaEventSynchronize wp_cudaEventElapsedTime wp_cudaEventDestroy
  wp_cudaGetDeviceProperties wp_nvtxRangeStart wp_nvtxRangeEnd wp_free wp_cudaFreeHost
  wp_cudaFree wp_cudaDeviceReset wp_Timer_new wp_Timer_reset wp_Timer_elapsed

lemma wp_of_run: "m s = (Inr r, s') \<Longrightarrow> wp m Q E s = Q r s'"
  by (simp add: wp_def)

lemma copy_elems_idem: "copy_elems k src (copy_elems k src dst) = copy_elems k src dst"
  by (auto simp: copy_elems_def)

lemma host_ok_upd [simp]:
  "host_ok (s\<lparr>mem := m\<rparr>) = host_ok s"
  "host_ok (s\<lparr>trace := t\<rparr>) = host_ok s"
  "host_ok (s\<lparr>out := ou\<rparr>) = host_ok s"
  "host_ok (s\<lparr>err := er\<rparr>) = host_ok s"
  "host_ok (s\<lparr>events := ev\<rparr>) = host_ok s"
  "host_ok (s\<lparr>next_event := ne\<rparr>) = host_ok s"
  by (simp_all add: host_ok_def fun_eq_iff)

lemma dev_ok_upd [simp]:
  "dev_ok (s\<lparr>mem := m\<rparr>) = dev_ok s"
  "dev_ok (s\<lparr>trace := t\<rparr>) = dev_ok s"
  "dev_ok (s\<lparr>out := ou\<rparr>) = dev_ok s"
  "dev_ok (s\<lparr>err := er\<rparr>) = dev_ok s"
  "dev_ok (s\<lparr>events := ev\<rparr>) = dev_ok s"
  "dev_ok (s\<lparr>next_event := ne\<rparr>) = dev_ok s"
  by (simp_all add: dev_ok_def fun_eq_iff)

lemma host_ok_mono: "host_ok s p b \<Longrightarrow> b' \<le> b \<Longrightarrow> host_ok s p b'"
  by (auto simp: host_ok_def split: option.splits)

lemma dev_ok_mono: "dev_ok s p b \<Longrightarrow> b' \<le> b \<Longrightarrow> dev_ok s p b'"
  by (auto simp: dev_ok_def split: option.splits)



lemma concat_replicate_snoc: "concat (replicate j cs) @ cs = cs @ concat (replicate j cs)"
  by (induction j) simp_all

lemma repeatE_exact:
  assumes step: "\<And>t. live t = live s \<Longrightarrow>
             body t = (Inr (r t), t\<lparr>mem := F (mem t), trace := trace t @ cs\<rparr>)"
    and idem: "\<And>m. F (F m) = F m"
  shows "repeatE k body s =
     (Inr (), s\<lparr>mem := (if k = 0 then mem s else F (mem s)),
               trace := trace s @ concat (replicate k cs)\<rparr>)"
  using step
proof (induction k arbitrary: s)
  case 0
  then show ?case by (simp add: returnE_def)
next
  case (Suc k)
  let ?s1 = "s\<lparr>mem := F (mem s), trace := trace s @ cs\<rparr>"
  have first: "body s = (Inr (r s), ?s1)"
    by (rule Suc.prems) simp
  have "repeatE (Suc k) body s = repeatE k body ?s1"
    by (simp add: bindE_def first)
  also have "\<dots> = (Inr (), ?s1\<lparr>mem := (if k = 0 then mem ?s1 else F (mem ?s1)),
               trace := trace ?s1 @ concat (replicate k cs)\<rparr>)"
    by (rule Suc.IH) (simp add: Suc.prems)
  also have "\<dots> = (Inr (), s\<lparr>mem := (if Suc k = 0 then mem s else F (mem s)),
               trace := trace s @ concat (replicate (Suc k) cs)\<rparr>)"
    by (simp add: idem)
  finally show ?case .
qed

lemma repeatE_memcpy:
  assumes "host_ok s dst b" "host_ok s src b" "dst \<noteq> src"
  shows "repeatE k (memcpy dst src b) s =
     (Inr (), s\<lparr>mem := (if k = 0 then mem s
                         else (mem s)(dst := copy_elems (b div 4) (mem s src) (mem s dst))),
               trace := trace s @ replicate k (Memcpy dst src b)\<rparr>)"
  using assms
proof (induction k arbitrary: s)
  case 0
  then show ?case by (simp add: returnE_def)
next
  case (Suc k)
  let ?s1 = "s\<lparr>mem := (mem s)(dst := copy_elems (b div 4) (mem s src) (mem s dst)),
              trace := trace s @ [Memcpy dst src b]\<rparr>"
  have first: "memcpy dst src b s = (Inr (), ?s1)"
    using Suc.prems by (simp add: memcpy_def)
  have ok: "host_ok ?s1 dst b" "host_ok ?s1 src b"
    using Suc.prems by simp_all
  have "repeatE (Suc k) (memcpy dst src b) s = repeatE k (memcpy dst src b) ?s1"
    by (simp add: bindE_def first)
  also have "\<dots> = (Inr (), ?s1\<lparr>mem := (if k = 0 then mem ?s1
                         else (mem ?s1)(dst := copy_elems (b div 4) (mem ?s1 src) (mem ?s1 dst))),
               trace := trace ?s1 @ replicate k (Memcpy dst src b)\<rparr>)"
    by (rule Suc.IH [OF ok Suc.prems(3)])
  also have "\<dots> = (Inr (), s\<lparr>mem := (if Suc k = 0 then mem s
                         else (mem s)(dst := copy_elems (b div 4) (mem s src) (mem s dst))),
               trace := trace s @ replicate (Suc k) (Memcpy dst src b)\<rparr>)"
    using Suc.prems(3) by (simp add: copy_elems_idem)
  finally show ?case .
qed

lemma copy_elems_back: "copy_elems k (copy_elems k b a) b = b"
  by (auto simp: copy_elems_def)

lemma fun_upd_other_triv: "a \<noteq> b \<Longrightarrow> (f(a := x))(b := f b) = f(a := x)"
  by auto

lemma profileH2HCopies_run:
  assumes "host_ok s h_a (bytes_of n)" "host_ok s h_b (bytes_of n)" "h_a \<noteq> h_b"
  shows "profileH2HCopies env h_a h_b n desc s =
     (Inr (),
      s\<lparr>mem := (mem s)(h_a := copy_elems (bytes_of n div 4) (mem s h_b) (mem s h_a)),
        out := out s @ [HostToHostHeader desc,
                 Bandwidth HostToHost
                   (fdiv (fadd
                      (two_way_band (1 / 10 ^ 9) (bytes_of n)
                         (clock env (length (trace s) + 133) - clock env (length (trace s) + 32)))
                      (two_way_band (1 / 10 ^ 9) (bytes_of n)
                         (clock env (length (trace s) + 235) - clock env (length (trace s) + 134))))
                      (Fin 2))],
        trace := trace s @ h2h_trace h_a h_b (bytes_of n)\<rparr>)"
  using assms
  unfolding two_way_band_def h2h_trace_def
  by (simp add: profileH2HCopies_def bindE_def printf_def repeatE_memcpy Timer_new_def
      Timer_elapsed_def Timer_reset_def clock_now_def returnE_def Let_def copy_elems_back
      copy_elems_idem fun_upd_other_triv
      del: fdiv.simps fadd.simps fmul.simps)

lemma verify_loop_run:
  assumes "host_ok s h_a (4 * n)" "host_ok s h_b (4 * n)"
  shows "verify_loop msg h_a h_b i n s =
     (Inr (), s\<lparr>out := out s @ (if \<exists>j. i \<le> j \<and> j < n \<and> mem s h_a j \<noteq> mem s h_b j
                                  then [msg] else [])\<rparr>)"
  using assms
proof (induction msg h_a h_b i n s rule: verify_loop.induct)
  case (1 msg h_a h_b i n s)
  show ?case
  proof (cases "i < n")
    case False
    then show ?thesis by (subst verify_loop.simps) auto
  next
    case True
    have ok: "host_ok s h_a (4 * Suc i)" "host_ok s h_b (4 * Suc i)"
      using True "1.prems" by (auto intro: host_ok_mono)
    show ?thesis
    proof (cases "mem s h_a i \<noteq> mem s h_b i")
      case True
      with \<open>i < n\<close> ok show ?thesis
        by (subst verify_loop.simps) (auto simp: printf_def)
    next
      case False
      have ex: "(\<exists>j. i \<le> j \<and> j < n \<and> mem s h_a j \<noteq> mem s h_b j)
                \<longleftrightarrow> (\<exists>j. Suc i \<le> j \<and> j < n \<and> mem s h_a j \<noteq> mem s h_b j)"
        using False by (metis Suc_leD Suc_leI le_neq_implies_less)
      from False \<open>i < n\<close> ok "1.IH" "1.prems" show ?thesis
        by (subst verify_loop.simps) (simp add: ex)
    qed
  qed
qed

lemma verify_loop_run_pick:
  assumes "host_ok s h_a (4 * n)" "host_ok s h_b (4 * n)"
  shows "verify_loop msg h_a h_b 0 n s =
     (Inr (), s\<lparr>out := out s @ pick (\<exists>j<n. mem s h_a j \<noteq> mem s h_b j) [msg] []\<rparr>)"
  using verify_loop_run [OF assms, of msg 0] by (simp add: pick_def)

lemma length_concat_replicate: "length (concat (replicate k xs)) = k * length xs"
  by (induction k) simp_all


lemma copy_elems_chain: "copy_elems k (copy_elems k a d) b = copy_elems k a b"
  by (auto simp: copy_elems_def)

lemma wp_repeatE_any:
  assumes step: "\<And>(t::world) Q'. (\<And>x m. Q' x (t\<lparr>mem := m, trace := trace t @ cs\<rparr>))
                   \<Longrightarrow> wp body Q' (\<lambda>_ _. True) t"
    and cont: "\<And>m. Q () (s\<lparr>mem := m, trace := trace s @ concat (replicate k cs)\<rparr>)"
  shows "wp (repeatE k body) Q (\<lambda>_ _. True) s"
proof (rule wp_repeatE [where I = "\<lambda>j t. \<exists>m. t = s\<lparr>mem := m, trace := trace s @ concat (replicate j cs)\<rparr>"])
  show "\<exists>m. s = s\<lparr>mem := m, trace := trace s @ concat (replicate 0 cs)\<rparr>"
    by (rule exI [where x = "mem s"]) simp
next
  fix j t
  assume "\<exists>m. t = s\<lparr>mem := m, trace := trace s @ concat (replicate j cs)\<rparr>"
  then obtain m where t: "t = s\<lparr>mem := m, trace := trace s @ concat (replicate j cs)\<rparr>"
    by blast
  show "wp body (\<lambda>_ u. \<exists>m. u = s\<lparr>mem := m, trace := trace s @ concat (replicate (Suc j) cs)\<rparr>)
          (\<lambda>_ _. True) t"
    by (rule step) (auto simp add: t concat_replicate_snoc)
next
  fix t
  assume "\<exists>m. t = s\<lparr>mem := m, trace := trace s @ concat (replicate k cs)\<rparr>"
  then show "Q () t" using cont by blast
qed

lemma verify_loop_normal:
  "verify_loop msg h_a h_b i n s = (Inr r, s') \<Longrightarrow>
     s' = s\<lparr>out := out s @ (if \<exists>j\<ge>i. j < n \<and> mem s h_a j \<noteq> mem s h_b j then [msg] else [])\<rparr>"
proof (induction msg h_a h_b i n s rule: verify_loop.induct)
  case (1 msg h_a h_b i n s)
  show ?case
  proof (cases "i < n")
    case False
    with "1.prems" show ?thesis by (subst (asm) verify_loop.simps) auto
  next
    case True
    note lt = this
    from "1.prems" have ok: "host_ok s h_a (4 * Suc i) \<and> host_ok s h_b (4 * Suc i)"
      using lt by (subst (asm) verify_loop.simps) (auto split: if_splits)
    show ?thesis
    proof (cases "mem s h_a i \<noteq> mem s h_b i")
      case True
      with lt ok "1.prems" show ?thesis
        by (subst (asm) verify_loop.simps) (auto simp: printf_def)
    next
      case False
      have ex: "(\<exists>j\<ge>i. j < n \<and> mem s h_a j \<noteq> mem s h_b j)
                \<longleftrightarrow> (\<exists>j\<ge>Suc i. j < n \<and> mem s h_a j \<noteq> mem s h_b j)"
        using False by (metis Suc_leD Suc_leI le_neq_implies_less)
      from "1.prems" lt ok False
      have "verify_loop msg h_a h_b (Suc i) n s = (Inr r, s')"
        by (subst (asm) verify_loop.simps) simp
      with "1.IH" lt ok False show ?thesis
        by (simp add: ex)
    qed
  qed
qed

lemma wp_verify_loop_any:
  assumes "Q () (s\<lparr>out := out s @ pick (\<exists>j<n. mem s h_a j \<noteq> mem s h_b j) [msg] []\<rparr>)"
  shows "wp (verify_loop msg h_a h_b 0 n) Q (\<lambda>_ _. True) s"
proof (cases "verify_loop msg h_a h_b 0 n s")
  case (Pair r s')
  show ?thesis
  proof (cases r)
    case (Inl e)
    with Pair show ?thesis by (simp add: wp_def)
  next
    case (Inr x)
    with Pair verify_loop_normal [of msg h_a h_b 0 n s x s'] assms show ?thesis
      by (simp add: wp_def pick_def)
  qed
qed

lemma host_ok_live_set [simp]: "host_ok (s\<lparr>live := l\<rparr>) p b = host_in l p b"
  by (simp add: host_ok_def host_in_def)

lemma dev_ok_live_set [simp]: "dev_ok (s\<lparr>live := l\<rparr>) p b = dev_in l p b"
  by (simp add: dev_ok_def dev_in_def)

lemma is_space_live_set [simp]: "is_space (s\<lparr>live := l\<rparr>) p sp = space_in l p sp"
  by (simp add: is_space_def space_in_def)

lemma in_live [simp]:
  "host_in (live s) p b = host_ok s p b"
  "dev_in (live s) p b = dev_ok s p b"
  "space_in (live s) p sp = is_space s p sp"
  by (simp_all add: host_ok_def host_in_def dev_ok_def dev_in_def is_space_def space_in_def)

lemma host_in_simps [simp]:
  "host_in [] p b = False"
  "host_in ((q, sp, sz) # l) p b \<longleftrightarrow>
     (p = q \<and> sp \<noteq> Device \<and> b \<le> sz) \<or> (p \<noteq> q \<and> host_in l p b)"
  "host_in (l @ l') p b \<longleftrightarrow> host_in l p b \<or> (map_of l p = None \<and> host_in l' p b)"
  "host_in (pick c l l') p b = pick c (host_in l p b) (host_in l' p b)"
  by (auto simp: host_in_def map_add_def pick_def split: option.splits)

lemma dev_in_simps [simp]:
  "dev_in [] p b = False"
  "dev_in ((q, sp, sz) # l) p b \<longleftrightarrow>
     (p = q \<and> sp = Device \<and> b \<le> sz) \<or> (p \<noteq> q \<and> dev_in l p b)"
  "dev_in (l @ l') p b \<longleftrightarrow> dev_in l p b \<or> (map_of l p = None \<and> dev_in l' p b)"
  "dev_in (pick c l l') p b = pick c (dev_in l p b) (dev_in l' p b)"
  by (auto simp: dev_in_def map_add_def pick_def split: option.splits)

lemma space_in_simps [simp]:
  "space_in [] p x = False"
  "space_in ((q, sp, sz) # l) p x \<longleftrightarrow> (p = q \<and> sp = x) \<or> (p \<noteq> q \<and> space_in l p x)"
  "space_in (l @ l') p x \<longleftrightarrow> space_in l p x \<or> (map_of l p = None \<and> space_in l' p x)"
  "space_in (pick c l l') p x = pick c (space_in l p x) (space_in l' p x)"
  by (auto simp: space_in_def map_add_def pick_def split: option.splits)

lemma is_space_upd [simp]:
  "is_space (s\<lparr>mem := m\<rparr>) = is_space s"
  "is_space (s\<lparr>trace := t\<rparr>) = is_space s"
  "is_space (s\<lparr>out := ou\<rparr>) = is_space s"
  "is_space (s\<lparr>err := er\<rparr>) = is_space s"
  "is_space (s\<lparr>events := ev\<rparr>) = is_space s"
  "is_space (s\<lparr>next_event := ne\<rparr>) = is_space s"
  "is_space (s\<lparr>next_ptr := np\<rparr>) = is_space s"
  by (simp_all add: is_space_def fun_eq_iff)

lemma host_ok_next_ptr [simp]: "host_ok (s\<lparr>next_ptr := x\<rparr>) = host_ok s"
  by (simp add: host_ok_def fun_eq_iff)

lemma dev_ok_next_ptr [simp]: "dev_ok (s\<lparr>next_ptr := x\<rparr>) = dev_ok s"
  by (simp add: dev_ok_def fun_eq_iff)



lemma not_live_simps [simp]:
  "map_of (live s) p = None \<Longrightarrow> host_ok s p b = False"
  "map_of (live s) p = None \<Longrightarrow> dev_ok s p b = False"
  "map_of (live s) p = None \<Longrightarrow> is_space s p sp = False"
  by (simp_all add: host_ok_def dev_ok_def is_space_def)

lemma profileD2DCopies_any:
  assumes wf: "0 \<notin> set (events s)" "0 < next_event s"
    "map_of (live s) 0 = None" "0 < next_ptr s"
  shows "wp (profileD2DCopies env d_a d_b n)
     (\<lambda>_ s'. s' =
        s\<lparr>mem := mem s', live := live s @ [(next_ptr s, Pinned, bytes_of n),
                                             (Suc (next_ptr s), Pinned, bytes_of n)],
          next_ptr := Suc (Suc (next_ptr s)),
          events := events s', next_event := Suc (Suc (next_event s)),
          out := out s @ [DeviceToDeviceHeader,
                 Bandwidth DeviceToDevice
                   (fdiv (fadd
                      (two_way_band (1 / 10 ^ 6) (bytes_of n)
                         (elapsed_ms env (length (trace s) + 137)))
                      (two_way_band (1 / 10 ^ 6) (bytes_of n)
                         (elapsed_ms env (length (trace s) + 241))))
                      (Fin 2))]
               @ pick (\<exists>j<unat n. mem s' (next_ptr s) j \<noteq> mem s' (Suc (next_ptr s)) j)
                   [DeviceToDeviceFailed] [],
          trace := trace s @ d2d_trace d_a d_b (bytes_of n) (next_event s) (next_ptr s)\<rparr>
        \<and> 0 \<notin> set (events s'))
     (\<lambda>_ _. True) s"
  unfolding two_way_band_def d2d_trace_def
  using wf
  apply (simp add: profileD2DCopies_def wp_prims Let_def del: fdiv.simps fadd.simps fmul.simps fun_upd_apply)
  apply (rule wp_repeatE_any [where cs = "[CudaMemcpy d_b d_a (bytes_of n) cudaMemcpyDeviceToDevice,
                           CudaMemcpy d_a d_b (bytes_of n) cudaMemcpyDeviceToDevice]"])
  apply (simp add: wp_prims del: fun_upd_apply)
  apply (simp add: wp_prims length_concat_replicate Let_def
      del: fdiv.simps fadd.simps fmul.simps fun_upd_apply)
  apply (intro impI conjI allI;
      (rule wp_repeatE_any [where cs = "[CudaMemcpy d_b d_a (bytes_of n) cudaMemcpyDeviceToDevice]"])?;
      (simp add: wp_prims length_concat_replicate Let_def
        del: fdiv.simps fadd.simps fmul.simps fun_upd_apply)?;
      (intro impI conjI allI)?;
      (rule wp_repeatE_any [where cs = "[CudaMemcpy d_a d_b (bytes_of n) cudaMemcpyDeviceToDevice]"])?;
      (simp add: wp_prims length_concat_replicate Let_def null_ptr_def
        del: fdiv.simps fadd.simps fmul.simps fun_upd_apply)?;
      (intro impI conjI allI)?; (rule wp_verify_loop_any)?;
      (simp add: wp_prims length_concat_replicate null_ptr_def
        del: fdiv.simps fadd.simps fmul.simps fun_upd_apply)?)
  done

lemma wp_normalD: "wp m Q E s \<Longrightarrow> m s = (Inr r, s') \<Longrightarrow> Q r s'"
  by (simp add: wp_def)

lemma no_mismatch:
  "n \<le> k \<Longrightarrow> (\<exists>j<n. copy_elems k a x j \<noteq> copy_elems k a y j) = False"
  by (auto simp: copy_elems_def)

lemma copy_elems_self: "copy_elems k a a = a"
  by (auto simp: copy_elems_def)

lemma profileD2DCopies_run:
  assumes nf: "nofail env"
    and ok: "dev_ok s d_a (bytes_of n)" "dev_ok s d_b (bytes_of n)"
    and ne: "d_a \<noteq> d_b"
    and fresh: "map_of (live s) (next_ptr s) = None" "map_of (live s) (Suc (next_ptr s)) = None"
    and nowrap: "bytes_of n = 4 * unat n"
  shows "profileD2DCopies env d_a d_b n s =
     (Inr (),
      s\<lparr>mem := (mem s)(d_b := copy_elems (unat n) (mem s d_a) (mem s d_b),
                        next_ptr s := copy_elems (unat n) (mem s d_a) (mem s (next_ptr s)),
                        Suc (next_ptr s) :=
                          copy_elems (unat n) (mem s d_a) (mem s (Suc (next_ptr s)))),
        live := live s @ [(next_ptr s, Pinned, bytes_of n),
                          (Suc (next_ptr s), Pinned, bytes_of n)],
        next_ptr := Suc (Suc (next_ptr s)),
        events := removeAll (Suc (next_event s)) (removeAll (next_event s) (events s)),
        next_event := Suc (Suc (next_event s)),
        out := out s @ [DeviceToDeviceHeader,
                 Bandwidth DeviceToDevice
                   (fdiv (fadd
                      (two_way_band (1 / 10 ^ 6) (bytes_of n)
                         (elapsed_ms env (length (trace s) + 137)))
                      (two_way_band (1 / 10 ^ 6) (bytes_of n)
                         (elapsed_ms env (length (trace s) + 241))))
                      (Fin 2))],
        trace := trace s @ d2d_trace d_a d_b (bytes_of n) (next_event s) (next_ptr s)\<rparr>)"
proof -
  have f [simp]: "\<And>a k. fails env a k = False"
    using nf by (simp add: nofail_def)
  have k: "bytes_of n div 4 = unat n"
    by (simp add: nowrap)
  have p: "d_a \<noteq> next_ptr s" "d_b \<noteq> next_ptr s" "d_a \<noteq> Suc (next_ptr s)"
    "d_b \<noteq> Suc (next_ptr s)"
    using ok fresh by (auto simp: dev_ok_def)
  let ?F = "\<lambda>m. m(d_b := copy_elems (unat n) (m d_a) (m d_b))"
  let ?G = "\<lambda>m. m(d_a := copy_elems (unat n) (m d_b) (m d_a))"
  have okt: "dev_ok t d_a (bytes_of n)" "dev_ok t d_b (bytes_of n)" if "live t = live s" for t
    using ok that by (simp_all add: dev_ok_def)
  have warm: "repeatE 16
       (thenE (bindE (cudaMemcpy env d_b d_a (bytes_of n) cudaMemcpyDeviceToDevice) (checkCuda env))
              (bindE (cudaMemcpy env d_a d_b (bytes_of n) cudaMemcpyDeviceToDevice) (checkCuda env))) t
     = (Inr (), t\<lparr>mem := (if (16::nat) = 0 then mem t else ?F (mem t)),
          trace := trace t @ concat (replicate 16
             [CudaMemcpy d_b d_a (bytes_of n) cudaMemcpyDeviceToDevice,
              CudaMemcpy d_a d_b (bytes_of n) cudaMemcpyDeviceToDevice])\<rparr>)"
    if "live t = live s" for t
  proof (rule repeatE_exact [where r = "\<lambda>_. cudaSuccess"])
    fix u :: world assume "live u = live t"
    then have "live u = live s" using that by simp
    from okt [OF this] show "thenE (bindE (cudaMemcpy env d_b d_a (bytes_of n) cudaMemcpyDeviceToDevice) (checkCuda env))
              (bindE (cudaMemcpy env d_a d_b (bytes_of n) cudaMemcpyDeviceToDevice) (checkCuda env)) u
         = (Inr cudaSuccess, u\<lparr>mem := ?F (mem u), trace := trace u @
              [CudaMemcpy d_b d_a (bytes_of n) cudaMemcpyDeviceToDevice,
               CudaMemcpy d_a d_b (bytes_of n) cudaMemcpyDeviceToDevice]\<rparr>)"
      using ne
      by (simp add: bindE_def cudaMemcpy_def checkCuda_def cuda_result_def k
          copy_elems_back fun_upd_other_triv)
  next
    fix m show "?F (?F m) = ?F m"
      using ne by (simp add: copy_elems_idem)
  qed
  have loop1: "repeatE 100
       (bindE (cudaMemcpy env d_b d_a (bytes_of n) cudaMemcpyDeviceToDevice) (checkCuda env)) t
     = (Inr (), t\<lparr>mem := (if (100::nat) = 0 then mem t else ?F (mem t)),
          trace := trace t @ concat (replicate 100
             [CudaMemcpy d_b d_a (bytes_of n) cudaMemcpyDeviceToDevice])\<rparr>)"
    if "live t = live s" for t
  proof (rule repeatE_exact [where r = "\<lambda>_. cudaSuccess"])
    fix u :: world assume "live u = live t"
    then have "live u = live s" using that by simp
    from okt [OF this] show "bindE (cudaMemcpy env d_b d_a (bytes_of n) cudaMemcpyDeviceToDevice) (checkCuda env) u
         = (Inr cudaSuccess, u\<lparr>mem := ?F (mem u), trace := trace u @
              [CudaMemcpy d_b d_a (bytes_of n) cudaMemcpyDeviceToDevice]\<rparr>)"
      by (simp add: bindE_def cudaMemcpy_def checkCuda_def cuda_result_def k)
  next
    fix m show "?F (?F m) = ?F m"
      using ne by (simp add: copy_elems_idem)
  qed
  have loop2: "repeatE 100
       (bindE (cudaMemcpy env d_a d_b (bytes_of n) cudaMemcpyDeviceToDevice) (checkCuda env)) t
     = (Inr (), t\<lparr>mem := (if (100::nat) = 0 then mem t else ?G (mem t)),
          trace := trace t @ concat (replicate 100
             [CudaMemcpy d_a d_b (bytes_of n) cudaMemcpyDeviceToDevice])\<rparr>)"
    if "live t = live s" for t
  proof (rule repeatE_exact [where r = "\<lambda>_. cudaSuccess"])
    fix u :: world assume "live u = live t"
    then have "live u = live s" using that by simp
    from okt [OF this] show "bindE (cudaMemcpy env d_a d_b (bytes_of n) cudaMemcpyDeviceToDevice) (checkCuda env) u
         = (Inr cudaSuccess, u\<lparr>mem := ?G (mem u), trace := trace u @
              [CudaMemcpy d_a d_b (bytes_of n) cudaMemcpyDeviceToDevice]\<rparr>)"
      by (simp add: bindE_def cudaMemcpy_def checkCuda_def cuda_result_def k)
  next
    fix m show "?G (?G m) = ?G m"
      using ne by (simp add: copy_elems_idem)
  qed
  show ?thesis
    unfolding two_way_band_def d2d_trace_def wp_exact [symmetric]
    using ok ne ne [symmetric] p p [symmetric] fresh
    apply (simp add: nowrap [symmetric] profileD2DCopies_def wp_prims wp_of_run [OF warm] wp_of_run [OF loop1]
      wp_of_run [OF loop2] wp_of_run [OF verify_loop_run_pick] length_concat_replicate Let_def
      null_ptr_def
      del: fdiv.simps fadd.simps fmul.simps fun_upd_apply)
    apply (simp add: copy_elems_chain copy_elems_idem copy_elems_back copy_elems_self
      fun_upd_other_triv no_mismatch k
      del: fdiv.simps fadd.simps fmul.simps)
    done
qed







lemma profileD2DCopies_normal:
  assumes "wf_world s" "profileD2DCopies env d_a d_b n s = (Inr r, s')"
  shows "trace s' = trace s @ d2d_trace d_a d_b (bytes_of n) (next_event s) (next_ptr s)"
    and "out s' = out s @ [DeviceToDeviceHeader,
                 Bandwidth DeviceToDevice
                   (fdiv (fadd
                      (two_way_band (1 / 10 ^ 6) (bytes_of n)
                         (elapsed_ms env (length (trace s) + 137)))
                      (two_way_band (1 / 10 ^ 6) (bytes_of n)
                         (elapsed_ms env (length (trace s) + 241))))
                      (Fin 2))]
               @ pick (\<exists>j<unat n. mem s' (next_ptr s) j \<noteq> mem s' (Suc (next_ptr s)) j)
                   [DeviceToDeviceFailed] []"
    and "live s' = live s @ [(next_ptr s, Pinned, bytes_of n),
                             (Suc (next_ptr s), Pinned, bytes_of n)]"
    and "next_ptr s' = Suc (Suc (next_ptr s))"
    and "next_event s' = Suc (Suc (next_event s))" and "wf_world s'"
proof -
  have wf: "0 \<notin> set (events s)" "0 < next_event s" "map_of (live s) 0 = None" "0 < next_ptr s"
    using assms(1) by (simp_all add: wf_world_def)
  note post = wp_normalD [OF profileD2DCopies_any [OF wf] assms(2)]
  note eq = conjunct1 [OF post]
  show "trace s' = trace s @ d2d_trace d_a d_b (bytes_of n) (next_event s) (next_ptr s)"
    using arg_cong [OF eq, of trace] by simp
  show "out s' = out s @ [DeviceToDeviceHeader,
                 Bandwidth DeviceToDevice
                   (fdiv (fadd
                      (two_way_band (1 / 10 ^ 6) (bytes_of n)
                         (elapsed_ms env (length (trace s) + 137)))
                      (two_way_band (1 / 10 ^ 6) (bytes_of n)
                         (elapsed_ms env (length (trace s) + 241))))
                      (Fin 2))]
               @ pick (\<exists>j<unat n. mem s' (next_ptr s) j \<noteq> mem s' (Suc (next_ptr s)) j)
                   [DeviceToDeviceFailed] []"
    using arg_cong [OF eq, of out] by simp
  show l: "live s' = live s @ [(next_ptr s, Pinned, bytes_of n),
                             (Suc (next_ptr s), Pinned, bytes_of n)]"
    using arg_cong [OF eq, of live] by simp
  show p: "next_ptr s' = Suc (Suc (next_ptr s))"
    using arg_cong [OF eq, of next_ptr] by simp
  show e: "next_event s' = Suc (Suc (next_event s))"
    using arg_cong [OF eq, of next_event] by simp
  show "wf_world s'"
    using wf conjunct2 [OF post] l p e by (simp add: wf_world_def)
qed

lemma nofail_quiet: "nofail quiet_env"
  by (simp add: nofail_def quiet_env_def)

lemma wf_test_world: "wf_world test_world"
  by (simp add: wf_world_def test_world_def)

lemma bytes_of_4: "bytes_of 4 = 16"
  by (simp add: bytes_of_def)



lemma d2d_test:
  "nofail env \<Longrightarrow> \<exists>s'. profileD2DCopies env 3 4 4 test_world = (Inr (), s')"
  by (rule exI, rule profileD2DCopies_run)
     (simp_all add: bytes_of_4 dev_ok_def test_world_def)

lemma nofail_envs: "nofail skew_env" "nofail zero_env" "nofail unit_env"
  by (simp_all add: nofail_def quiet_env_def skew_env_def zero_env_def unit_env_def)

lemma two_way_band_Fin:
  "t \<noteq> 0 \<Longrightarrow> two_way_band sc b t = Fin (2 * 100 * real b * sc / t)"
  by (simp add: two_way_band_def)


lemma mean_of_rates:
  fixes B t1 t2 :: real
  assumes "0 < t1" "0 < t2"
  shows "(B / t1 + B / t2) / 2 = B / ((t1 + t2) / 2) \<longleftrightarrow> B = 0 \<or> t1 = t2"
proof -
  have d: "(B / t1 + B / t2) / 2 - B / ((t1 + t2) / 2)
      = B * (t1 - t2)\<^sup>2 / (2 * t1 * t2 * (t1 + t2))"
    using assms by (simp add: field_simps power2_eq_square)
  have "(B / t1 + B / t2) / 2 = B / ((t1 + t2) / 2)
      \<longleftrightarrow> B * (t1 - t2)\<^sup>2 / (2 * t1 * t2 * (t1 + t2)) = 0"
    using d by (metis eq_iff_diff_eq_0)
  also have "\<dots> \<longleftrightarrow> B = 0 \<or> t1 = t2"
    using assms by simp
  finally show ?thesis .
qed

lemma bandwidths_append: "bandwidths (xs @ ys) = bandwidths xs @ bandwidths ys"
  by (induction xs rule: bandwidths.induct) simp_all

lemma bandwidths_pick [simp]:
  "bandwidths (pick c [TransfersFailed d] []) = []"
  "bandwidths (pick c [DeviceToDeviceFailed] []) = []"
  by (simp_all add: pick_def)



section \<open>The claims\<close>

text \<open>
  C1. The spec says that every one of the four directions, the host-to-host one included,
  compares the destination with the source after the timed copies and reports a mismatch.
  \<^verbatim>\<open>profileH2HCopies\<close> has no comparison loop. Called with \<open>n = 2 ^ 30\<close> elements the byte
  count \<^verbatim>\<open>n * sizeof(float)\<close> wraps to 0 in \<^verbatim>\<open>unsigned int\<close>, nothing is copied, the buffers
  differ at index 1 on return, and the output holds the header and the bandwidth line only.
\<close>

theorem profileH2HCopies_reports_no_mismatch:
  "fst (profileH2HCopies quiet_env 1 2 1073741824 ''Pageable'' (two_buffers 4294967296))
     = Inr ()
   \<and> mem (snd (profileH2HCopies quiet_env 1 2 1073741824 ''Pageable''
                 (two_buffers 4294967296))) 1 1
     \<noteq> mem (snd (profileH2HCopies quiet_env 1 2 1073741824 ''Pageable''
                 (two_buffers 4294967296))) 2 1
   \<and> out (snd (profileH2HCopies quiet_env 1 2 1073741824 ''Pageable''
                 (two_buffers 4294967296)))
     = [HostToHostHeader ''Pageable'', Bandwidth HostToHost (Fin 0)]"
proof -
  have b: "bytes_of 1073741824 = 0"
    by (simp add: bytes_of_def)
  have ok: "host_ok (two_buffers 4294967296) 1 (bytes_of 1073741824)"
    "host_ok (two_buffers 4294967296) 2 (bytes_of 1073741824)"
    by (simp_all add: b host_ok_def two_buffers_def)
  have ne: "(1::nat) \<noteq> 2"
    by simp
  show ?thesis
    unfolding profileH2HCopies_run [OF ok ne] b
    by (simp add: two_way_band_def two_buffers_def quiet_env_def copy_elems_def)
qed

text \<open>
  C2. The spec says that the two pinned host buffers which \<^verbatim>\<open>profileD2DCopies\<close> allocates for
  its comparison are freed within the call. The function never calls \<^verbatim>\<open>cudaFreeHost\<close>:
  whenever it returns, the two blocks are still in the table of live allocations.
\<close>

theorem profileD2DCopies_keeps_temporaries:
  assumes "wf_world s" and "profileD2DCopies env d_a d_b n s = (Inr r, s')"
  shows "live s' = live s @ [(next_ptr s, Pinned, bytes_of n),
                             (Suc (next_ptr s), Pinned, bytes_of n)]"
  by (rule profileD2DCopies_normal(3) [OF assms])

theorem profileD2DCopies_keeps_temporaries_witness:
  "wf_world test_world
   \<and> fst (profileD2DCopies quiet_env 3 4 4 test_world) = Inr ()
   \<and> live (snd (profileD2DCopies quiet_env 3 4 4 test_world))
       = live test_world @ [(5, Pinned, 16), (6, Pinned, 16)]"
proof -
  obtain S where run: "profileD2DCopies quiet_env 3 4 4 test_world = (Inr (), S)"
    using d2d_test [OF nofail_quiet] by blast
  have "live S = live test_world @ [(next_ptr test_world, Pinned, bytes_of 4),
                             (Suc (next_ptr test_world), Pinned, bytes_of 4)]"
    by (rule profileD2DCopies_keeps_temporaries [OF wf_test_world run])
  then show ?thesis
    unfolding run by (simp add: wf_test_world bytes_of_4) (simp add: test_world_def)
qed

text \<open>
  C4, as the spec states it: the device-to-device figure equals
  \<open>2 * iterations * bytes / ((time_AtoB + time_BtoA) / 2)\<close>. With 16 bytes and the two
  directions measured at 1 ms and 3 ms the program prints \<open>4 / 1875\<close>, which is neither that
  quotient nor that quotient scaled to GB/s.
\<close>

theorem d2d_averaged_time_counterexample:
  "elapsed_ms skew_env 137 = 1 \<and> elapsed_ms skew_env 241 = 3
   \<and> out (snd (profileD2DCopies skew_env 3 4 4 test_world)) ! 1
     = Bandwidth DeviceToDevice (Fin (4 / 1875))
   \<and> (4 / 1875 :: real) \<noteq> 2 * 100 * 16 / ((1 + 3) / 2)
   \<and> (4 / 1875 :: real) \<noteq> 2 * 100 * 16 * (1 / 10 ^ 6) / ((1 + 3) / 2)"
proof -
  obtain S where run: "profileD2DCopies skew_env 3 4 4 test_world = (Inr (), S)"
    using d2d_test [OF nofail_envs(1)] by blast
  have "out S ! 1 = Bandwidth DeviceToDevice (Fin (4 / 1875))"
    unfolding profileD2DCopies_normal(2) [OF wf_test_world run]
    by (simp add: test_world_def skew_env_def quiet_env_def bytes_of_4 two_way_band_def)
  then show ?thesis
    unfolding run by (simp add: skew_env_def)
qed

text \<open>
  C4, amended: the figure \<^verbatim>\<open>profileD2DCopies\<close> prints is the arithmetic mean of the two
  per-direction bandwidths \<open>B / t1\<close> and \<open>B / t2\<close>, where \<open>B = 2 * 100 * bytes * 1e-6\<close> and
  \<open>t1\<close>, \<open>t2\<close> are the two positive elapsed times, measured one after the other. It equals
  \<open>B\<close> over the mean time exactly when the two times are equal or no byte is moved.
\<close>

theorem d2d_bandwidth_is_mean_of_rates:
  assumes "wf_world s" and "profileD2DCopies env d_a d_b n s = (Inr r, s')"
    and "t1 = elapsed_ms env (length (trace s) + 137)"
    and "t2 = elapsed_ms env (length (trace s) + 241)"
    and "B = 2 * 100 * real (bytes_of n) * (1 / 10 ^ 6)"
    and "0 < t1" and "0 < t2"
  shows "bandwidths (drop (length (out s)) (out s')) = [Fin ((B / t1 + B / t2) / 2)]
         \<and> ((B / t1 + B / t2) / 2 = B / ((t1 + t2) / 2) \<longleftrightarrow> bytes_of n = 0 \<or> t1 = t2)"
proof -
  have b1: "two_way_band (1 / 10 ^ 6) (bytes_of n) t1 = Fin (B / t1)"
    unfolding assms(5) by (rule two_way_band_Fin) (use assms(6) in simp)
  have b2: "two_way_band (1 / 10 ^ 6) (bytes_of n) t2 = Fin (B / t2)"
    unfolding assms(5) by (rule two_way_band_Fin) (use assms(7) in simp)
  have "bandwidths (drop (length (out s)) (out s')) = [Fin ((B / t1 + B / t2) / 2)]"
    unfolding profileD2DCopies_normal(2) [OF assms(1,2)] assms(3,4) [symmetric] b1 b2
    by (simp add: bandwidths_append)
  moreover have "B = 0 \<longleftrightarrow> bytes_of n = 0"
    unfolding assms(5) by simp
  then have "(B / t1 + B / t2) / 2 = B / ((t1 + t2) / 2) \<longleftrightarrow> bytes_of n = 0 \<or> t1 = t2"
    unfolding mean_of_rates [OF assms(6,7), of B] by simp
  ultimately show ?thesis by blast
qed

theorem d2d_bandwidth_is_mean_of_rates_witness:
  "wf_world test_world
   \<and> fst (profileD2DCopies skew_env 3 4 4 test_world) = Inr ()
   \<and> (0::real) < 1 \<and> (0::real) < 3
   \<and> bandwidths (drop (length (out test_world))
         (out (snd (profileD2DCopies skew_env 3 4 4 test_world))))
       = [Fin ((2 / 625 / 1 + 2 / 625 / 3) / 2)]
   \<and> \<not> ((2 / 625 / 1 + 2 / 625 / 3) / 2 = (2 / 625 :: real) / ((1 + 3) / 2))"
proof -
  obtain S where run: "profileD2DCopies skew_env 3 4 4 test_world = (Inr (), S)"
    using d2d_test [OF nofail_envs(1)] by blast
  have t: "1 = elapsed_ms skew_env (length (trace test_world) + 137)"
    "3 = elapsed_ms skew_env (length (trace test_world) + 241)"
    by (simp_all add: skew_env_def test_world_def)
  have B: "(2 / 625 :: real) = 2 * 100 * real (bytes_of 4) * (1 / 10 ^ 6)"
    by (simp add: bytes_of_4)
  have pos: "(0::real) < 1" "(0::real) < 3"
    by simp_all
  from d2d_bandwidth_is_mean_of_rates [OF wf_test_world run t B pos] show ?thesis
    unfolding run by (simp add: wf_test_world bytes_of_4)
qed












end
